theory Spec2Isabelle
  imports Complex_Main "HOL-Library.Word"
begin

unbundle bit_operations_syntax

section \<open>The image display widget of \<^verbatim>\<open>image_widget.py\<close>\<close>

text \<open>
  The module holds one class, \<^verbatim>\<open>ImageWidget\<close>, with a constructor and the methods
  \<^verbatim>\<open>updateImage\<close>, \<^verbatim>\<open>clearBuffers\<close> and \<^verbatim>\<open>paintEvent\<close>. The model below keeps the
  attributes of the object in a record, passes it through every method, and returns
  what a method asks of its surroundings (a repaint, a printed line) beside the new
  record. An exception is a value: it carries the attributes as they stood when it was
  raised, since the assignments made before the raise stay. The constructor of the Qt
  base class is not modelled, and a repaint is only recorded as asked for: what the
  toolkit does with it is its own business.
\<close>

subsection \<open>numpy arrays\<close>

text \<open>
  An array is its \<^verbatim>\<open>shape\<close> and its elements in row-major order. The elements are
  unsigned bytes, the input contract of the widget. \<^verbatim>\<open>ndarray.size\<close> is the product
  of the shape (1 for a 0-dimensional array).
\<close>

record ndarray =
  shape :: "nat list"
  data :: "8 word list"

definition nd_size :: "ndarray \<Rightarrow> nat" where
  "nd_size a = prod_list (shape a)"

datatype py_error = IndexError | ZeroDivisionError | AttributeError | CvError

subsection \<open>The two OpenCV calls\<close>

text \<open>
  \<^verbatim>\<open>cv2.resize(src, dsize[, dst[, fx[, fy[, interpolation]]]])\<close>: the third positional
  argument is \<^verbatim>\<open>dst\<close>, the fourth \<^verbatim>\<open>fx\<close>; \<^verbatim>\<open>fy\<close> defaults to 0. \<^verbatim>\<open>dsize\<close> is
  (width, height). When \<^verbatim>\<open>dsize\<close> is non-zero it is the size of the result and the
  factors are not read; only when it is zero the size is computed from the factors, as
  \<^verbatim>\<open>(cvRound(fx * cols), cvRound(fy * rows))\<close>. The result is a fresh array whatever
  \<^verbatim>\<open>dst\<close> was. A one-channel result comes back 2-dimensional. The interpolated
  bytes themselves are the library's business: they are the parameter \<open>interp\<close>,
  applied to the source, the new width and the new height. The factors are floats in
  the program and rationals here.
\<close>

definition cvRound :: "rat \<Rightarrow> int" where
  "cvRound x =
     (let f = \<lfloor>x\<rfloor>; r = x - of_int f
      in if r < 1 / 2 then f
         else if 1 / 2 < r then f + 1
         else if even f then f else f + 1)"

definition channels :: "ndarray \<Rightarrow> nat" where
  "channels a = (if length (shape a) = 2 then 1 else shape a ! 2)"

definition cv_resize ::
  "(ndarray \<Rightarrow> nat \<Rightarrow> nat \<Rightarrow> 8 word list) \<Rightarrow> ndarray \<Rightarrow> nat \<times> nat \<Rightarrow> rat \<Rightarrow> rat \<Rightarrow> rat
     \<Rightarrow> py_error + ndarray" where
  "cv_resize interp src dsize dst fx fy =
     (if length (shape src) = 2 \<or> length (shape src) = 3 then
        if nd_size src = 0 then Inl CvError
        else
          let rows = shape src ! 0;
              cols = shape src ! 1;
              dw = (if fst dsize = 0 \<or> snd dsize = 0
                    then nat (cvRound (fx * of_nat cols)) else fst dsize);
              dh = (if fst dsize = 0 \<or> snd dsize = 0
                    then nat (cvRound (fy * of_nat rows)) else snd dsize)
          in if dw = 0 \<or> dh = 0 then Inl CvError
             else Inr \<lparr>shape = [dh, dw] @ (if channels src = 1 then [] else [channels src]),
                       data = interp src dw dh\<rparr>
      else Inl CvError)"

text \<open>
  \<^verbatim>\<open>cv2.cvtColor(src, cv2.COLOR_BGR2RGB)\<close> takes three or four channels and gives
  three: the first and the third byte of every pixel change places, a fourth is
  dropped.
\<close>

fun swap_bgr3 :: "8 word list \<Rightarrow> 8 word list" where
  "swap_bgr3 (b # g # r # rest) = r # g # b # swap_bgr3 rest"
| "swap_bgr3 _ = []"

fun swap_bgr4 :: "8 word list \<Rightarrow> 8 word list" where
  "swap_bgr4 (b # g # r # a # rest) = r # g # b # swap_bgr4 rest"
| "swap_bgr4 _ = []"

definition cv_cvtColor_BGR2RGB :: "ndarray \<Rightarrow> py_error + ndarray" where
  "cv_cvtColor_BGR2RGB src =
     (if length (shape src) = 3 \<and> nd_size src \<noteq> 0 \<and> shape src ! 2 = 3 then
        Inr \<lparr>shape = shape src, data = swap_bgr3 (data src)\<rparr>
      else if length (shape src) = 3 \<and> nd_size src \<noteq> 0 \<and> shape src ! 2 = 4 then
        Inr \<lparr>shape = [shape src ! 0, shape src ! 1, 3], data = swap_bgr4 (data src)\<rparr>
      else Inl CvError)"

subsection \<open>Qt images and colours\<close>

text \<open>
  \<^verbatim>\<open>qRgb(r, g, b)\<close> is \<^verbatim>\<open>0xff000000 | ((r & 0xff) << 16) | ((g & 0xff) << 8) | (b & 0xff)\<close>
  on 32 bits; \<^verbatim>\<open>qAlpha\<close>, \<^verbatim>\<open>qRed\<close>, \<^verbatim>\<open>qGreen\<close> and \<^verbatim>\<open>qBlue\<close> read the four bytes back.
\<close>

definition qRgb :: "int \<Rightarrow> int \<Rightarrow> int \<Rightarrow> 32 word" where
  "qRgb r g b =
     0xff000000 OR push_bit 16 (word_of_int r AND 0xff)
       OR push_bit 8 (word_of_int g AND 0xff) OR (word_of_int b AND 0xff)"

definition qAlpha :: "32 word \<Rightarrow> int" where
  "qAlpha rgb = uint (drop_bit 24 rgb)"

definition qRed :: "32 word \<Rightarrow> int" where
  "qRed rgb = uint (drop_bit 16 rgb AND 0xff)"

definition qGreen :: "32 word \<Rightarrow> int" where
  "qGreen rgb = uint (drop_bit 8 rgb AND 0xff)"

definition qBlue :: "32 word \<Rightarrow> int" where
  "qBlue rgb = uint (rgb AND 0xff)"

datatype qformat = Format_Invalid | Format_Indexed8 | Format_RGB888

record QImage =
  bits :: "8 word list"
  img_width :: nat
  img_height :: nat
  bytesPerLine :: nat
  format :: qformat
  colorTable :: "32 word list"

text \<open>
  \<^verbatim>\<open>bits\<close> are the bytes of the pixels, row after row; \<^verbatim>\<open>bytesPerLine\<close> is the
  stride of a scan line as Qt reports it. The padding Qt may put at the end of a scan
  line is no pixel and is not part of \<^verbatim>\<open>bits\<close>. \<^verbatim>\<open>QImage()\<close> is the null image: no
  bytes, width 0 and height 0.
\<close>

definition QImage_null :: QImage where
  "QImage_null =
     \<lparr>bits = [], img_width = 0, img_height = 0, bytesPerLine = 0,
      format = Format_Invalid, colorTable = []\<rparr>"

text \<open>
  \<^verbatim>\<open>QImage(data, width, height, bytesPerLine, format)\<close> wraps the bytes; with a width
  or a height of 0, or the invalid format, it is the null image.
\<close>

definition QImage_of_data :: "8 word list \<Rightarrow> nat \<Rightarrow> nat \<Rightarrow> nat \<Rightarrow> qformat \<Rightarrow> QImage" where
  "QImage_of_data d width height bpl fmt =
     (if width = 0 \<or> height = 0 \<or> fmt = Format_Invalid then QImage_null
      else \<lparr>bits = d, img_width = width, img_height = height, bytesPerLine = bpl,
            format = fmt, colorTable = []\<rparr>)"

definition isNull :: "QImage \<Rightarrow> bool" where
  "isNull img = (img_width img = 0 \<or> img_height img = 0 \<or> format img = Format_Invalid)"

definition depth :: "qformat \<Rightarrow> nat" where
  "depth fmt = (case fmt of Format_Invalid \<Rightarrow> 0 | Format_Indexed8 \<Rightarrow> 8 | Format_RGB888 \<Rightarrow> 24)"

text \<open>
  \<^verbatim>\<open>setColorTable\<close> does nothing on the null image. On any other it first detaches
  the image from the buffer it wraps: the pixels are copied into storage of Qt's own,
  whose scan lines are aligned to 4 bytes, so the stride becomes
  \<^verbatim>\<open>((width * depth + 31) / 32) * 4\<close> while the pixels stay what they were. Then the
  table is set.
\<close>

definition setColorTable :: "QImage \<Rightarrow> 32 word list \<Rightarrow> QImage" where
  "setColorTable img colors =
     (if isNull img then img
      else img\<lparr>bytesPerLine := 4 * ((img_width img * depth (format img) + 31) div 32),
               colorTable := colors\<rparr>)"

subsection \<open>The widget\<close>

text \<open>
  The attributes of an \<^verbatim>\<open>ImageWidget\<close>. \<^verbatim>\<open>showed_image\<close> is \<open>None\<close> for Python's
  \<^verbatim>\<open>None\<close>; \<^verbatim>\<open>grayscale_colortable\<close> is \<open>None\<close> as long as the attribute has not been
  assigned (the constructor assigns it last); \<^verbatim>\<open>fixed_size\<close> is what
  \<^verbatim>\<open>setFixedSize(w, h)\<close> last set, the visible size of the widget.
\<close>

record ImageWidget =
  desired_width :: nat
  showed_image :: "QImage option"
  grayscale_colortable :: "32 word list option"
  fixed_size :: "(nat \<times> nat) option"

datatype effect = Repaint | Print string

definition clearBuffers :: "ImageWidget \<Rightarrow> ImageWidget \<times> effect list" where
  "clearBuffers self = (self\<lparr>showed_image := Some QImage_null\<rparr>, [Repaint])"

text \<open>The table of line 38: \<^verbatim>\<open>[qRgb(i, i, i) for i in range(256)]\<close>.\<close>

definition init_colortable :: "32 word list" where
  "init_colortable = map (\<lambda>i. qRgb i i i) [0..255]"

text \<open>
  The constructor: \<^verbatim>\<open>desired_width\<close> and \<^verbatim>\<open>showed_image = None\<close> are assigned, then
  \<^verbatim>\<open>clearBuffers()\<close> runs, and the colour table is assigned last.
\<close>

definition init :: "ImageWidget \<times> effect list" where
  "init =
     (let self0 = \<lparr>desired_width = 480, showed_image = None,
                   grayscale_colortable = None, fixed_size = None\<rparr>;
          cleared = clearBuffers self0
      in ((fst cleared)\<lparr>grayscale_colortable := Some init_colortable\<rparr>,
          snd cleared))"

definition updateImage ::
  "(ndarray \<Rightarrow> nat \<Rightarrow> nat \<Rightarrow> 8 word list) \<Rightarrow> ImageWidget \<Rightarrow> ndarray
     \<Rightarrow> (py_error \<times> ImageWidget) + (ImageWidget \<times> effect list)" where
  "updateImage interp self new_image =
     (if nd_size new_image \<noteq> 0 then
        if length (shape new_image) < 2 then Inl (IndexError, self)
        else if shape new_image ! 1 = 0 then Inl (ZeroDivisionError, self)
        else
          let scaling_factor = of_nat (desired_width self) / of_nat (shape new_image ! 1)
          in case cv_resize interp new_image (shape new_image ! 0, shape new_image ! 1)
                    scaling_factor scaling_factor 0 of
               Inl e \<Rightarrow> Inl (e, self)
             | Inr scaled_image \<Rightarrow>
                 let sized = self\<lparr>fixed_size :=
                               Some (shape scaled_image ! 1, shape scaled_image ! 0)\<rparr>;
                     height = shape scaled_image ! 0;
                     width = shape scaled_image ! 1
                 in if length (shape scaled_image) = 2 then
                      let img = QImage_of_data (data scaled_image) width height width
                                  Format_Indexed8;
                          stored = sized\<lparr>showed_image := Some img\<rparr>
                      in case grayscale_colortable stored of
                           None \<Rightarrow> Inl (AttributeError, stored)
                         | Some table \<Rightarrow>
                             Inr (stored\<lparr>showed_image := Some (setColorTable img table)\<rparr>,
                                  [Repaint])
                    else
                      case cv_cvtColor_BGR2RGB new_image of
                        Inl e \<Rightarrow> Inl (e, sized)
                      | Inr converted \<Rightarrow>
                          Inr (sized\<lparr>showed_image :=
                                 Some (QImage_of_data (data converted) width height
                                         (3 * width) Format_RGB888)\<rparr>,
                               [Repaint])
      else Inr (self, [Print ''Not updating image. The provided image is empty'']))"

text \<open>
  The drawing surface is the list of the calls the painter received. \<^verbatim>\<open>paintEvent\<close>
  reads the widget and changes nothing of it.
\<close>

datatype draw_call = DrawPixmap int int nat nat QImage

definition paintEvent :: "ImageWidget \<Rightarrow> draw_call list \<Rightarrow> draw_call list" where
  "paintEvent self surface =
     (case showed_image self of
        None \<Rightarrow> surface
      | Some img \<Rightarrow> surface @ [DrawPixmap 0 0 (img_width img) (img_height img) img])"

text \<open>
  The states a widget can be in: the one the constructor leaves, and every state a
  call of \<^verbatim>\<open>updateImage\<close> (returning or raising) or \<^verbatim>\<open>clearBuffers\<close> leads to.
\<close>

inductive reachable :: "(ndarray \<Rightarrow> nat \<Rightarrow> nat \<Rightarrow> 8 word list) \<Rightarrow> ImageWidget \<Rightarrow> bool"
  for interp :: "ndarray \<Rightarrow> nat \<Rightarrow> nat \<Rightarrow> 8 word list" where
  reach_init: "reachable interp (fst init)"
| reach_update:
    "reachable interp w \<Longrightarrow> updateImage interp w img = Inr (w', es) \<Longrightarrow> reachable interp w'"
| reach_raise:
    "reachable interp w \<Longrightarrow> updateImage interp w img = Inl (err, w') \<Longrightarrow> reachable interp w'"
| reach_clear: "reachable interp w \<Longrightarrow> reachable interp (fst (clearBuffers w))"

section \<open>Auxiliary facts\<close>

subsection \<open>Colour bytes\<close>

lemma byte_mask: "(0xff :: 32 word) = mask 8"
  by (simp add: mask_eq_exp_minus_1)

lemma alpha_mask: "(0xff000000 :: 32 word) = push_bit 24 (mask 8)"
  by (simp add: mask_eq_exp_minus_1 push_bit_eq_mult)

lemma uint_byte:
  "0 \<le> r \<Longrightarrow> r < 256 \<Longrightarrow> uint (take_bit 8 (word_of_int r :: 32 word)) = r"
proof -
  assume "0 \<le> r" and "r < 256"
  then have "take_bit 8 r = r"
    by (simp add: take_bit_eq_mod)
  moreover have "uint (take_bit 8 (word_of_int r :: 32 word)) = take_bit 8 r"
    by (simp add: unsigned_take_bit_eq uint_word_of_int_eq)
  ultimately show ?thesis
    by simp
qed

lemma red_byte:
  "take_bit 8 (drop_bit 16 (push_bit 24 (mask 8) OR push_bit 16 (take_bit 8 R)
       OR push_bit 8 (take_bit 8 G) OR take_bit 8 B)) = take_bit 8 (R :: 32 word)"
  by (rule bit_word_eqI) (auto simp add: bit_simps)

lemma green_byte:
  "take_bit 8 (drop_bit 8 (push_bit 24 (mask 8) OR push_bit 16 (take_bit 8 R)
       OR push_bit 8 (take_bit 8 G) OR take_bit 8 B)) = take_bit 8 (G :: 32 word)"
  by (rule bit_word_eqI) (auto simp add: bit_simps)

lemma blue_byte:
  "take_bit 8 (push_bit 24 (mask 8) OR push_bit 16 (take_bit 8 R)
       OR push_bit 8 (take_bit 8 G) OR take_bit 8 B) = take_bit 8 (B :: 32 word)"
  by (rule bit_word_eqI) (auto simp add: bit_simps)

lemma alpha_byte:
  "drop_bit 24 (push_bit 24 (mask 8) OR push_bit 16 (take_bit 8 R)
       OR push_bit 8 (take_bit 8 G) OR take_bit 8 B) = (mask 8 :: 32 word)"
  by (rule bit_word_eqI) (auto simp add: bit_simps)

lemma qRed_qRgb: "0 \<le> r \<Longrightarrow> r < 256 \<Longrightarrow> qRed (qRgb r g b) = r"
  unfolding qRed_def qRgb_def byte_mask alpha_mask
  by (simp only: take_bit_eq_mask [symmetric] red_byte uint_byte)

lemma qGreen_qRgb: "0 \<le> g \<Longrightarrow> g < 256 \<Longrightarrow> qGreen (qRgb r g b) = g"
  unfolding qGreen_def qRgb_def byte_mask alpha_mask
  by (simp only: take_bit_eq_mask [symmetric] green_byte uint_byte)

lemma qBlue_qRgb: "0 \<le> b \<Longrightarrow> b < 256 \<Longrightarrow> qBlue (qRgb r g b) = b"
  unfolding qBlue_def qRgb_def byte_mask alpha_mask
  by (simp only: take_bit_eq_mask [symmetric] blue_byte uint_byte)

lemma qAlpha_qRgb: "qAlpha (qRgb r g b) = 255"
  unfolding qAlpha_def qRgb_def byte_mask alpha_mask
  by (simp only: take_bit_eq_mask [symmetric] alpha_byte) (simp add: mask_eq_exp_minus_1)

lemma length_init_colortable: "length init_colortable = 256"
  by (simp add: init_colortable_def)

lemma nth_init_colortable:
  assumes "i < 256"
  shows "init_colortable ! i = qRgb (int i) (int i) (int i)"
proof -
  have "[0..255] ! i = 0 + int i"
    using assms by (intro nth_upto) simp
  moreover have "i < length [0..255]"
    using assms by simp
  ultimately show ?thesis
    by (simp add: init_colortable_def)
qed

subsection \<open>The constructor and the two calls into OpenCV\<close>

lemma prod_list_pos_nth:
  "prod_list xs \<noteq> 0 \<Longrightarrow> i < length xs \<Longrightarrow> 0 < (xs ! i :: nat)"
  by (induction xs arbitrary: i) (auto simp: nth_Cons split: nat.splits)

lemma init_attrs:
  "desired_width (fst init) = 480"
  "showed_image (fst init) = Some QImage_null"
  "grayscale_colortable (fst init) = Some init_colortable"
  "fixed_size (fst init) = None"
  by (simp_all add: init_def clearBuffers_def Let_def)

lemma clearBuffers_attrs:
  "desired_width (fst (clearBuffers w)) = desired_width w"
  "grayscale_colortable (fst (clearBuffers w)) = grayscale_colortable w"
  "fixed_size (fst (clearBuffers w)) = fixed_size w"
  "showed_image (fst (clearBuffers w)) = Some QImage_null"
  by (simp_all add: clearBuffers_def)

lemma cv_resize_own_shape:
  assumes "length (shape src) = 2 \<or> length (shape src) = 3" and "nd_size src \<noteq> 0"
  shows "cv_resize interp src (shape src ! 0, shape src ! 1) dst fx fy =
           Inr \<lparr>shape = [shape src ! 1, shape src ! 0]
                          @ (if channels src = 1 then [] else [channels src]),
                data = interp src (shape src ! 0) (shape src ! 1)\<rparr>"
proof -
  have "0 < shape src ! 0" and "0 < shape src ! 1"
    using assms by (auto simp: nd_size_def intro!: prod_list_pos_nth)
  then show ?thesis
    using assms by (simp add: cv_resize_def Let_def)
qed

subsection \<open>What \<^verbatim>\<open>updateImage\<close> stores\<close>

lemma updateImage_2d:
  assumes "shape img = [h, wd]" and "0 < h" and "0 < wd"
    and "grayscale_colortable self = Some table"
  shows "updateImage interp self img =
           Inr (self\<lparr>fixed_size := Some (h, wd),
                     showed_image := Some \<lparr>bits = interp img h wd, img_width = h,
                       img_height = wd, bytesPerLine = 4 * ((h * 8 + 31) div 32),
                       format = Format_Indexed8, colorTable = table\<rparr>\<rparr>, [Repaint])"
proof -
  have nonempty: "nd_size img \<noteq> 0"
    using assms by (simp add: nd_size_def)
  have "cv_resize interp img (h, wd) dst fx fy =
      Inr \<lparr>shape = [wd, h], data = interp img h wd\<rparr>" for dst fx fy
    using cv_resize_own_shape [of img interp dst fx fy] assms nonempty
    by (simp add: channels_def)
  with nonempty show ?thesis
    using assms
    by (simp add: updateImage_def Let_def QImage_of_data_def setColorTable_def isNull_def
          depth_def)
qed

lemma updateImage_bgr:
  assumes "shape img = [h, wd, 3]" and "0 < h" and "0 < wd"
  shows "updateImage interp self img =
           Inr (self\<lparr>fixed_size := Some (h, wd),
                     showed_image := Some \<lparr>bits = swap_bgr3 (data img), img_width = h,
                       img_height = wd, bytesPerLine = 3 * h, format = Format_RGB888,
                       colorTable = []\<rparr>\<rparr>, [Repaint])"
proof -
  have nonempty: "nd_size img \<noteq> 0"
    using assms by (simp add: nd_size_def)
  have "cv_resize interp img (h, wd) dst fx fy =
      Inr \<lparr>shape = [wd, h, 3], data = interp img h wd\<rparr>" for dst fx fy
    using cv_resize_own_shape [of img interp dst fx fy] assms nonempty
    by (simp add: channels_def)
  with nonempty show ?thesis
    using assms
    by (simp add: updateImage_def Let_def QImage_of_data_def cv_cvtColor_BGR2RGB_def)
qed

lemma updateImage_frame:
  "updateImage interp w img = Inr (w', es) \<Longrightarrow>
     desired_width w' = desired_width w \<and> grayscale_colortable w' = grayscale_colortable w"
  "updateImage interp w img = Inl (err, w') \<Longrightarrow>
     desired_width w' = desired_width w \<and> grayscale_colortable w' = grayscale_colortable w"
  by (auto simp: updateImage_def Let_def split: if_splits sum.splits option.splits)

lemma updateImage_keeps_present:
  "updateImage interp w img = Inr (w', es) \<Longrightarrow> showed_image w \<noteq> None
     \<Longrightarrow> showed_image w' \<noteq> None"
  "updateImage interp w img = Inl (err, w') \<Longrightarrow> showed_image w \<noteq> None
     \<Longrightarrow> showed_image w' \<noteq> None"
  by (auto simp: updateImage_def Let_def split: if_splits sum.splits option.splits)

lemma updateImage_stores_nonnull:
  assumes "updateImage interp w img = Inr (w', es)" and "nd_size img \<noteq> 0"
  shows "\<exists>q. showed_image w' = Some q \<and> \<not> isNull q"
  using assms
  by (auto simp: updateImage_def Let_def cv_resize_def QImage_of_data_def setColorTable_def
        isNull_def depth_def split: if_splits sum.splits option.splits)

lemma updateImage_dims:
  assumes "updateImage interp w img = Inr (w', es)" and "nd_size img \<noteq> 0"
  shows "length (shape img) = 2 \<or> length (shape img) = 3"
  using assms
  by (auto simp: updateImage_def Let_def cv_resize_def split: if_splits sum.splits)

lemma updateImage_stores:
  assumes ret: "updateImage interp w img = Inr (w', es)" and nonempty: "nd_size img \<noteq> 0"
  shows "\<exists>q. showed_image w' = Some q \<and> \<not> isNull q
           \<and> img_width q = shape img ! 0 \<and> img_height q = shape img ! 1
           \<and> (length (shape img) = 2 \<longrightarrow>
                 format q = Format_Indexed8
                 \<and> bits q = interp img (shape img ! 0) (shape img ! 1))
           \<and> (length (shape img) = 3 \<and> shape img ! 2 = 3 \<longrightarrow>
                 format q = Format_RGB888 \<and> bits q = swap_bgr3 (data img))"
proof -
  have dims: "length (shape img) = 2 \<or> length (shape img) = 3"
    using ret nonempty by (rule updateImage_dims)
  then have ge2: "\<not> length (shape img) < 2"
    by auto
  have pos: "0 < shape img ! 0" "0 < shape img ! 1"
    using dims nonempty by (auto simp: nd_size_def intro!: prod_list_pos_nth)
  have scaled: "cv_resize interp img (shape img ! 0, shape img ! 1) dst fx fy =
      Inr \<lparr>shape = [shape img ! 1, shape img ! 0]
                     @ (if channels img = 1 then [] else [channels img]),
           data = interp img (shape img ! 0) (shape img ! 1)\<rparr>" for dst fx fy
    by (rule cv_resize_own_shape [OF dims nonempty])
  show ?thesis
  proof (cases "channels img = 1")
    case True
    have body: "updateImage interp w img =
        (case grayscale_colortable w of
           None \<Rightarrow> Inl (AttributeError,
             w\<lparr>fixed_size := Some (shape img ! 0, shape img ! 1),
               showed_image := Some (QImage_of_data (interp img (shape img ! 0) (shape img ! 1))
                 (shape img ! 0) (shape img ! 1) (shape img ! 0) Format_Indexed8)\<rparr>)
         | Some table \<Rightarrow> Inr
             (w\<lparr>fixed_size := Some (shape img ! 0, shape img ! 1),
               showed_image := Some (setColorTable
                 (QImage_of_data (interp img (shape img ! 0) (shape img ! 1))
                   (shape img ! 0) (shape img ! 1) (shape img ! 0) Format_Indexed8) table)\<rparr>,
              [Repaint]))"
      unfolding updateImage_def Let_def scaled
      using nonempty ge2 pos True by (simp split: option.splits)
    from ret obtain table where w': "w' =
        w\<lparr>fixed_size := Some (shape img ! 0, shape img ! 1),
          showed_image := Some (setColorTable
            (QImage_of_data (interp img (shape img ! 0) (shape img ! 1))
              (shape img ! 0) (shape img ! 1) (shape img ! 0) Format_Indexed8) table)\<rparr>"
      unfolding body by (auto split: option.splits)
    have "\<not> (length (shape img) = 3 \<and> shape img ! 2 = 3)"
      using True by (auto simp: channels_def split: if_splits)
    with w' pos show ?thesis
      by (simp add: QImage_of_data_def setColorTable_def isNull_def depth_def)
  next
    case False
    then have three: "length (shape img) = 3"
      using dims by (auto simp: channels_def split: if_splits)
    have body: "updateImage interp w img =
        (case cv_cvtColor_BGR2RGB img of
           Inl e \<Rightarrow> Inl (e, w\<lparr>fixed_size := Some (shape img ! 0, shape img ! 1)\<rparr>)
         | Inr converted \<Rightarrow> Inr
             (w\<lparr>fixed_size := Some (shape img ! 0, shape img ! 1),
               showed_image := Some (QImage_of_data (data converted)
                 (shape img ! 0) (shape img ! 1) (3 * (shape img ! 0)) Format_RGB888)\<rparr>,
              [Repaint]))"
      unfolding updateImage_def Let_def scaled
      using nonempty ge2 pos False by (simp split: sum.splits)
    from ret obtain converted where conv: "cv_cvtColor_BGR2RGB img = Inr converted"
      and w': "w' =
        w\<lparr>fixed_size := Some (shape img ! 0, shape img ! 1),
          showed_image := Some (QImage_of_data (data converted)
            (shape img ! 0) (shape img ! 1) (3 * (shape img ! 0)) Format_RGB888)\<rparr>"
      unfolding body by (auto split: sum.splits)
    have "shape img ! 2 = 3 \<longrightarrow> data converted = swap_bgr3 (data img)"
      using conv three nonempty by (auto simp: cv_cvtColor_BGR2RGB_def)
    with w' pos three show ?thesis
      by (simp add: QImage_of_data_def isNull_def)
  qed
qed

lemma updateImage_overwrites:
  assumes "nd_size b \<noteq> 0"
    and "updateImage interp (w\<lparr>fixed_size := fs, showed_image := si\<rparr>) b = Inr (w2, e2)"
  shows "updateImage interp w b = Inr (w2, e2)"
  using assms
  by (auto simp: updateImage_def Let_def split: if_splits sum.splits option.splits)

lemma updateImage_changes:
  assumes "updateImage interp w a = Inr (w1, e1)"
  shows "\<exists>fs si. w1 = w\<lparr>fixed_size := fs, showed_image := si\<rparr>"
proof (cases "nd_size a = 0")
  case True
  with assms have "w1 = w"
    by (simp add: updateImage_def)
  then have "w1 = w\<lparr>fixed_size := fixed_size w, showed_image := showed_image w\<rparr>"
    by simp
  then show ?thesis by blast
next
  case False
  with assms show ?thesis
    by (auto simp: updateImage_def Let_def split: if_splits sum.splits option.splits)
qed

subsection \<open>Invariants of the reachable states\<close>

lemma reachable_width: "reachable interp w \<Longrightarrow> desired_width w = 480"
  by (induction rule: reachable.induct)
     (simp_all add: init_attrs clearBuffers_attrs updateImage_frame)

lemma reachable_table: "reachable interp w \<Longrightarrow> grayscale_colortable w = Some init_colortable"
  by (induction rule: reachable.induct)
     (simp_all add: init_attrs clearBuffers_attrs updateImage_frame)

lemma reachable_present: "reachable interp w \<Longrightarrow> showed_image w \<noteq> None"
proof (induction rule: reachable.induct)
  case reach_init
  show ?case by (simp add: init_attrs)
next
  case (reach_update w img w' es)
  then show ?case using updateImage_keeps_present(1) by blast
next
  case (reach_raise w img err w')
  then show ?case using updateImage_keeps_present(2) by blast
next
  case (reach_clear w)
  show ?case by (simp add: clearBuffers_attrs)
qed

text \<open>
  A state to try the invariants on: the widget after the constructor and one 2-by-1
  grayscale image, with an interpolation that returns black pixels.
\<close>

lemma after_one_update:
  "updateImage (\<lambda>src w h. replicate (w * h) 0) (fst init) \<lparr>shape = [1, 2], data = [7, 9]\<rparr> =
     Inr ((fst init)\<lparr>fixed_size := Some (1, 2),
            showed_image := Some \<lparr>bits = [0, 0], img_width = 1, img_height = 2,
              bytesPerLine = 4, format = Format_Indexed8,
              colorTable = init_colortable\<rparr>\<rparr>, [Repaint])"
proof -
  have "replicate (1 * 2) 0 = [0, 0 :: 8 word]"
    by (simp add: numeral_2_eq_2)
  with updateImage_2d [of "\<lparr>shape = [1, 2], data = [7, 9]\<rparr>" 1 2 "fst init" init_colortable
      "\<lambda>src w h. replicate (w * h) 0"]
  show ?thesis by (simp add: init_attrs)
qed

lemma reachable_after_one_update:
  "reachable (\<lambda>src w h. replicate (w * h) 0)
     ((fst init)\<lparr>fixed_size := Some (1, 2),
        showed_image := Some \<lparr>bits = [0, 0], img_width = 1, img_height = 2,
          bytesPerLine = 4, format = Format_Indexed8, colorTable = init_colortable\<rparr>\<rparr>)"
  by (rule reach_update [OF reach_init after_one_update])

section \<open>Properties\<close>

text \<open>
  C1. The docstring of \<^verbatim>\<open>updateImage\<close> promises a fixed width of 480 with the aspect
  ratio kept, so a 640 wide, 320 high grayscale buffer (shape (320, 640)) should be
  shown 480 wide and 240 high. The call of \<^verbatim>\<open>cv2.resize\<close> passes the buffer's own
  (rows, cols) as the target (width, height), so the stored image is 320 wide and 640
  high, and the widget is fixed to that size.
\<close>

theorem updateImage_gray_640x320:
  "updateImage interp (fst init) \<lparr>shape = [320, 640], data = d\<rparr> =
     Inr ((fst init)\<lparr>fixed_size := Some (320, 640),
            showed_image := Some \<lparr>bits = interp \<lparr>shape = [320, 640], data = d\<rparr> 320 640,
              img_width = 320, img_height = 640, bytesPerLine = 320,
              format = Format_Indexed8, colorTable = init_colortable\<rparr>\<rparr>, [Repaint])"
  using updateImage_2d [of "\<lparr>shape = [320, 640], data = d\<rparr>" 320 640 "fst init"
      init_colortable interp]
  by (simp add: init_attrs)

text \<open>
  C2. For a 100 wide, 50 high colour buffer (shape (50, 100, 3)) the same law would
  give an image 480 wide and 240 high, made of the resized pixels in red-green-blue
  order. The stored image is 50 wide and 100 high; its bytes are those of the buffer
  as it came in, with blue and red exchanged, whatever the interpolation returned:
  \<^verbatim>\<open>cv2.cvtColor\<close> is applied to \<^verbatim>\<open>new_image\<close>, not to the resized buffer.
\<close>

theorem updateImage_bgr_100x50:
  "updateImage interp (fst init) \<lparr>shape = [50, 100, 3], data = d\<rparr> =
     Inr ((fst init)\<lparr>fixed_size := Some (50, 100),
            showed_image := Some \<lparr>bits = swap_bgr3 d,
              img_width = 50, img_height = 100, bytesPerLine = 150,
              format = Format_RGB888, colorTable = []\<rparr>\<rparr>, [Repaint])"
  using updateImage_bgr [of "\<lparr>shape = [50, 100, 3], data = d\<rparr>" 50 100 interp "fst init"]
  by simp

text \<open>
  C3, as the code has it. \<^verbatim>\<open>paintEvent\<close> draws nothing when the attribute is \<^verbatim>\<open>None\<close>.
  When it holds the null image that the constructor and \<^verbatim>\<open>clearBuffers\<close> store, the
  painter receives one \<^verbatim>\<open>drawPixmap\<close> call, of the null image, at (0, 0) with width 0
  and height 0.
\<close>

theorem paintEvent_None_or_null:
  "(showed_image self = None \<longrightarrow> paintEvent self surface = surface)
   \<and> (showed_image self = Some QImage_null \<longrightarrow>
        paintEvent self surface = surface @ [DrawPixmap 0 0 0 0 QImage_null])"
  by (simp add: paintEvent_def QImage_null_def)

text \<open>
  Both cases at a state each: the attributes as they stand at line 35, before the
  constructor calls \<^verbatim>\<open>clearBuffers\<close>, and the widget as the constructor leaves it.
\<close>

theorem paintEvent_None_or_null_witness:
  "paintEvent \<lparr>desired_width = 480, showed_image = None, grayscale_colortable = None,
       fixed_size = None\<rparr> [] = []
   \<and> paintEvent (fst init) [] = [DrawPixmap 0 0 0 0 QImage_null]"
  using paintEvent_None_or_null [of "\<lparr>desired_width = 480, showed_image = None,
        grayscale_colortable = None, fixed_size = None\<rparr>" "[]"]
    paintEvent_None_or_null [of "fst init" "[]"]
  by (simp add: init_attrs)

text \<open>
  In the state \<^verbatim>\<open>clearBuffers\<close> leaves, which holds no image to show, the surface
  does receive a call: it is not left without one.
\<close>

theorem paintEvent_after_clear_counterexample:
  "paintEvent (fst (clearBuffers (fst init))) [] = [DrawPixmap 0 0 0 0 QImage_null]
   \<and> paintEvent (fst (clearBuffers (fst init))) [] \<noteq> []"
  by (simp add: paintEvent_def clearBuffers_def QImage_null_def)

text \<open>
  C4. For an array of size 0 \<^verbatim>\<open>updateImage\<close> returns without an exception, prints
  its one line, and leaves every attribute as it was: the stored image, the fixed size,
  the width and the colour table.
\<close>

theorem updateImage_empty_unchanged:
  "nd_size img = 0 \<Longrightarrow>
     updateImage interp self img =
       Inr (self, [Print ''Not updating image. The provided image is empty''])"
  by (simp add: updateImage_def)

text \<open>An array with no rows, on the widget as constructed.\<close>

theorem updateImage_empty_unchanged_witness:
  "nd_size \<lparr>shape = [0, 640], data = []\<rparr> = 0
   \<and> updateImage (\<lambda>src w h. replicate (w * h) 0) (fst init) \<lparr>shape = [0, 640], data = []\<rparr> =
       Inr (fst init, [Print ''Not updating image. The provided image is empty''])
   \<and> showed_image (fst init) = Some QImage_null"
  using updateImage_empty_unchanged [of "\<lparr>shape = [0, 640], data = []\<rparr>"
      "\<lambda>src w h. replicate (w * h) 0" "fst init"]
  by (simp add: nd_size_def init_attrs)

text \<open>
  C5. \<^verbatim>\<open>clearBuffers\<close> stores the null image whatever the widget held, and a second
  call leaves the attributes as the first left them. (Each call asks for a repaint of
  its own.)
\<close>

theorem clearBuffers_no_image_idempotent:
  "showed_image (fst (clearBuffers w)) = Some QImage_null
   \<and> isNull QImage_null
   \<and> fst (clearBuffers (fst (clearBuffers w))) = fst (clearBuffers w)"
  by (simp add: clearBuffers_def isNull_def QImage_null_def)

text \<open>
  C6. In every reachable state the colour table is the one the constructor built. It
  has 256 entries; entry \<open>i\<close> is opaque with red, green and blue all \<open>i\<close>. A non-empty
  2-dimensional array is stored as an indexed image over the bytes of the resized
  buffer, with exactly this table.
\<close>

theorem grayscale_colortable_fixed:
  assumes "reachable interp w"
  shows "grayscale_colortable w = Some init_colortable
    \<and> length init_colortable = 256
    \<and> (\<forall>i<256. qRed (init_colortable ! i) = int i \<and> qGreen (init_colortable ! i) = int i
          \<and> qBlue (init_colortable ! i) = int i \<and> qAlpha (init_colortable ! i) = 255)
    \<and> (\<forall>img. length (shape img) = 2 \<and> nd_size img \<noteq> 0 \<longrightarrow>
         (\<exists>w' q scaled.
            cv_resize interp img (shape img ! 0, shape img ! 1)
              (of_nat (desired_width w) / of_nat (shape img ! 1))
              (of_nat (desired_width w) / of_nat (shape img ! 1)) 0 = Inr scaled
            \<and> updateImage interp w img = Inr (w', [Repaint])
            \<and> showed_image w' = Some q
            \<and> format q = Format_Indexed8
            \<and> bits q = data scaled
            \<and> colorTable q = init_colortable
            \<and> grayscale_colortable w' = Some init_colortable))"
proof -
  have table: "grayscale_colortable w = Some init_colortable"
    using assms by (rule reachable_table)
  have entries: "qRed (init_colortable ! i) = int i \<and> qGreen (init_colortable ! i) = int i
      \<and> qBlue (init_colortable ! i) = int i \<and> qAlpha (init_colortable ! i) = 255"
    if "i < 256" for i
    using that by (simp add: nth_init_colortable qRed_qRgb qGreen_qRgb qBlue_qRgb qAlpha_qRgb)
  have gray: "\<exists>w' q scaled.
      cv_resize interp img (shape img ! 0, shape img ! 1)
        (of_nat (desired_width w) / of_nat (shape img ! 1))
        (of_nat (desired_width w) / of_nat (shape img ! 1)) 0 = Inr scaled
      \<and> updateImage interp w img = Inr (w', [Repaint])
      \<and> showed_image w' = Some q
      \<and> format q = Format_Indexed8
      \<and> bits q = data scaled
      \<and> colorTable q = init_colortable
      \<and> grayscale_colortable w' = Some init_colortable"
    if two: "length (shape img) = 2" and nonempty: "nd_size img \<noteq> 0" for img
  proof -
    obtain h wd where sh: "shape img = [h, wd]"
      using two by (cases "shape img"; cases "tl (shape img)") auto
    with nonempty have pos: "0 < h" "0 < wd"
      by (simp_all add: nd_size_def)
    have "cv_resize interp img (shape img ! 0, shape img ! 1)
        (of_nat (desired_width w) / of_nat (shape img ! 1))
        (of_nat (desired_width w) / of_nat (shape img ! 1)) 0 =
          Inr \<lparr>shape = [wd, h], data = interp img h wd\<rparr>"
      using cv_resize_own_shape [of img interp] two nonempty sh
      by (simp add: channels_def)
    moreover note updateImage_2d [OF sh pos table, of interp]
    ultimately show ?thesis
      using table by simp
  qed
  from table entries gray show ?thesis
    by (simp add: length_init_colortable)
qed

text \<open>
  On the widget as constructed: entry 200 of its table, and the image stored for a
  2-by-1 array.
\<close>

theorem grayscale_colortable_fixed_witness:
  "reachable (\<lambda>src w h. replicate (w * h) 0) (fst init)
   \<and> grayscale_colortable (fst init) = Some init_colortable
   \<and> qRed (init_colortable ! 200) = 200
   \<and> qGreen (init_colortable ! 200) = 200
   \<and> qBlue (init_colortable ! 200) = 200
   \<and> (\<exists>w' q. updateImage (\<lambda>src w h. replicate (w * h) 0) (fst init)
                 \<lparr>shape = [1, 2], data = [7, 9]\<rparr> = Inr (w', [Repaint])
          \<and> showed_image w' = Some q \<and> colorTable q = init_colortable)"
proof -
  have r: "reachable (\<lambda>src w h. replicate (w * h) 0) (fst init)"
    by (rule reach_init)
  note fact = grayscale_colortable_fixed [OF r]
  have "(200 :: nat) < 256" by simp
  with fact have "qRed (init_colortable ! 200) = int 200
      \<and> qGreen (init_colortable ! 200) = int 200 \<and> qBlue (init_colortable ! 200) = int 200"
    by blast
  moreover have "length (shape \<lparr>shape = [1, 2], data = [7, 9 :: 8 word]\<rparr>) = 2
      \<and> nd_size \<lparr>shape = [1, 2], data = [7, 9 :: 8 word]\<rparr> \<noteq> 0"
    by (simp add: nd_size_def)
  with fact have "\<exists>w' q. updateImage (\<lambda>src w h. replicate (w * h) 0) (fst init)
                 \<lparr>shape = [1, 2], data = [7, 9]\<rparr> = Inr (w', [Repaint])
          \<and> showed_image w' = Some q \<and> colorTable q = init_colortable"
    by blast
  ultimately show ?thesis
    using r fact by simp
qed

text \<open>
  C7. When a call of \<^verbatim>\<open>updateImage\<close> has returned and a second call with a
  non-empty array returns, the widget is as if the second call alone had been made:
  nothing of the first image is left. The stored image is made of the second array:
  its width and height are the array's first and second dimension, for a
  2-dimensional array its bytes are those \<^verbatim>\<open>cv2.resize\<close> returned for it, for a
  3-channel array they are the array's own bytes with blue and red exchanged; and
  \<^verbatim>\<open>paintEvent\<close> draws this image.
\<close>

theorem updateImage_replaces:
  assumes "updateImage interp w a = Inr (w1, e1)" and "nd_size b \<noteq> 0"
    and "updateImage interp w1 b = Inr (w2, e2)"
  shows "updateImage interp w b = Inr (w2, e2)
         \<and> (\<exists>q. showed_image w2 = Some q \<and> \<not> isNull q
                \<and> img_width q = shape b ! 0 \<and> img_height q = shape b ! 1
                \<and> (length (shape b) = 2 \<longrightarrow>
                      format q = Format_Indexed8
                      \<and> bits q = interp b (shape b ! 0) (shape b ! 1))
                \<and> (length (shape b) = 3 \<and> shape b ! 2 = 3 \<longrightarrow>
                      format q = Format_RGB888 \<and> bits q = swap_bgr3 (data b))
                \<and> paintEvent w2 surface =
                    surface @ [DrawPixmap 0 0 (img_width q) (img_height q) q])"
proof -
  obtain fs si where "w1 = w\<lparr>fixed_size := fs, showed_image := si\<rparr>"
    using updateImage_changes [OF assms(1)] by blast
  with assms(2,3) have alone: "updateImage interp w b = Inr (w2, e2)"
    using updateImage_overwrites by blast
  obtain q where q: "showed_image w2 = Some q" and "\<not> isNull q"
    and "img_width q = shape b ! 0" and "img_height q = shape b ! 1"
    and "length (shape b) = 2 \<longrightarrow>
           format q = Format_Indexed8 \<and> bits q = interp b (shape b ! 0) (shape b ! 1)"
    and "length (shape b) = 3 \<and> shape b ! 2 = 3 \<longrightarrow>
           format q = Format_RGB888 \<and> bits q = swap_bgr3 (data b)"
    using updateImage_stores [OF assms(3) assms(2)] by blast
  moreover from q have "paintEvent w2 surface =
      surface @ [DrawPixmap 0 0 (img_width q) (img_height q) q]"
    by (simp add: paintEvent_def)
  ultimately show ?thesis
    using alone by blast
qed

text \<open>
  On the widget as constructed, with an interpolation that hands back the bytes of
  its source: the 2-by-1 array 7, 9 first, then the 1-by-2 array 3, 4. The image
  drawn holds 3, 4.
\<close>

theorem updateImage_replaces_witness:
  "updateImage (\<lambda>src w h. data src) (fst init) \<lparr>shape = [1, 2], data = [7, 9]\<rparr> =
     Inr ((fst init)\<lparr>fixed_size := Some (1, 2),
            showed_image := Some \<lparr>bits = [7, 9], img_width = 1, img_height = 2,
              bytesPerLine = 4, format = Format_Indexed8,
              colorTable = init_colortable\<rparr>\<rparr>, [Repaint])
   \<and> updateImage (\<lambda>src w h. data src)
         ((fst init)\<lparr>fixed_size := Some (1, 2),
            showed_image := Some \<lparr>bits = [7, 9], img_width = 1, img_height = 2,
              bytesPerLine = 4, format = Format_Indexed8,
              colorTable = init_colortable\<rparr>\<rparr>)
         \<lparr>shape = [2, 1], data = [3, 4]\<rparr> =
     Inr ((fst init)\<lparr>fixed_size := Some (2, 1),
            showed_image := Some \<lparr>bits = [3, 4], img_width = 2, img_height = 1,
              bytesPerLine = 4, format = Format_Indexed8,
              colorTable = init_colortable\<rparr>\<rparr>, [Repaint])
   \<and> updateImage (\<lambda>src w h. data src) (fst init) \<lparr>shape = [2, 1], data = [3, 4]\<rparr> =
     Inr ((fst init)\<lparr>fixed_size := Some (2, 1),
            showed_image := Some \<lparr>bits = [3, 4], img_width = 2, img_height = 1,
              bytesPerLine = 4, format = Format_Indexed8,
              colorTable = init_colortable\<rparr>\<rparr>, [Repaint])
   \<and> paintEvent ((fst init)\<lparr>fixed_size := Some (2, 1),
            showed_image := Some \<lparr>bits = [3, 4], img_width = 2, img_height = 1,
              bytesPerLine = 4, format = Format_Indexed8,
              colorTable = init_colortable\<rparr>\<rparr>) [] =
       [DrawPixmap 0 0 2 1 \<lparr>bits = [3, 4], img_width = 2, img_height = 1,
              bytesPerLine = 4, format = Format_Indexed8,
              colorTable = init_colortable\<rparr>]"
proof -
  let ?I = "\<lambda>(src :: ndarray) (w :: nat) (h :: nat). data src"
  let ?a = "\<lparr>shape = [1, 2], data = [7, 9 :: 8 word]\<rparr>"
  let ?b = "\<lparr>shape = [2, 1], data = [3, 4 :: 8 word]\<rparr>"
  let ?w1 = "(fst init)\<lparr>fixed_size := Some (1, 2),
        showed_image := Some \<lparr>bits = [7, 9], img_width = 1, img_height = 2,
          bytesPerLine = 4, format = Format_Indexed8, colorTable = init_colortable\<rparr>\<rparr>"
  let ?w2 = "(fst init)\<lparr>fixed_size := Some (2, 1),
        showed_image := Some \<lparr>bits = [3, 4], img_width = 2, img_height = 1,
          bytesPerLine = 4, format = Format_Indexed8, colorTable = init_colortable\<rparr>\<rparr>"
  have first: "updateImage ?I (fst init) ?a = Inr (?w1, [Repaint])"
    using updateImage_2d [of ?a 1 2 "fst init" init_colortable ?I]
    by (simp add: init_attrs)
  have nonempty: "nd_size ?b \<noteq> 0"
    by (simp add: nd_size_def)
  have second: "updateImage ?I ?w1 ?b = Inr (?w2, [Repaint])"
    using updateImage_2d [of ?b 2 1 ?w1 init_colortable ?I]
    by (simp add: init_attrs)
  from updateImage_replaces [OF first nonempty second, of "[]"] first second
  show ?thesis
    by (simp add: paintEvent_def)
qed

text \<open>
  C8. The constructor sets \<^verbatim>\<open>desired_width\<close> to 480; \<^verbatim>\<open>clearBuffers\<close> and
  \<^verbatim>\<open>updateImage\<close>, returning or raising, leave it as it is, and \<^verbatim>\<open>paintEvent\<close>
  assigns no attribute; so it is 480 in every reachable state.
\<close>

theorem desired_width_constant:
  "desired_width (fst init) = 480
   \<and> desired_width (fst (clearBuffers w)) = desired_width w
   \<and> (\<forall>img w' es. updateImage interp w img = Inr (w', es) \<longrightarrow>
         desired_width w' = desired_width w)
   \<and> (\<forall>img w' err. updateImage interp w img = Inl (err, w') \<longrightarrow>
         desired_width w' = desired_width w)
   \<and> (reachable interp w \<longrightarrow> desired_width w = 480)"
  using updateImage_frame [of interp w] reachable_width [of interp w]
  by (simp add: init_attrs clearBuffers_attrs)

text \<open>The widget after the constructor and one image.\<close>

theorem desired_width_constant_witness:
  "reachable (\<lambda>src w h. replicate (w * h) 0)
     ((fst init)\<lparr>fixed_size := Some (1, 2),
        showed_image := Some \<lparr>bits = [0, 0], img_width = 1, img_height = 2,
          bytesPerLine = 4, format = Format_Indexed8, colorTable = init_colortable\<rparr>\<rparr>)
   \<and> desired_width
       ((fst init)\<lparr>fixed_size := Some (1, 2),
          showed_image := Some \<lparr>bits = [0, 0], img_width = 1, img_height = 2,
            bytesPerLine = 4, format = Format_Indexed8, colorTable = init_colortable\<rparr>\<rparr>) = 480"
  using desired_width_constant [of
      "(fst init)\<lparr>fixed_size := Some (1, 2),
        showed_image := Some \<lparr>bits = [0, 0], img_width = 1, img_height = 2,
          bytesPerLine = 4, format = Format_Indexed8, colorTable = init_colortable\<rparr>\<rparr>"
      "\<lambda>src w h. replicate (w * h) 0"]
    reachable_after_one_update
  by blast

text \<open>
  C9. A 2- or 3-dimensional array of non-zero size has a positive second dimension,
  so the division of line 53 never raises \<^verbatim>\<open>ZeroDivisionError\<close>.
\<close>

theorem updateImage_no_zero_division:
  assumes "nd_size img \<noteq> 0" and "length (shape img) = 2 \<or> length (shape img) = 3"
  shows "0 < shape img ! 1
         \<and> (\<forall>self s. updateImage interp self img \<noteq> Inl (ZeroDivisionError, s))"
proof -
  have pos: "0 < shape img ! 1"
    using assms by (auto simp: nd_size_def intro!: prod_list_pos_nth)
  have "cv_resize interp img (shape img ! 0, shape img ! 1) dst fx fy \<noteq> Inl e" for dst fx fy e
    using cv_resize_own_shape [OF assms(2) assms(1)] by simp
  then have "updateImage interp self img \<noteq> Inl (ZeroDivisionError, s)" for self s
    using pos assms
    by (auto simp: updateImage_def Let_def cv_cvtColor_BGR2RGB_def
             split: sum.splits option.splits if_splits)
  with pos show ?thesis by blast
qed

text \<open>A 2-by-1 grayscale array.\<close>

theorem updateImage_no_zero_division_witness:
  "nd_size \<lparr>shape = [1, 2], data = [7, 9]\<rparr> \<noteq> 0
   \<and> (0 :: nat) < shape \<lparr>shape = [1, 2], data = [7, 9 :: 8 word]\<rparr> ! 1
   \<and> (\<forall>self s. updateImage (\<lambda>src w h. replicate (w * h) 0) self
                  \<lparr>shape = [1, 2], data = [7, 9]\<rparr> \<noteq> Inl (ZeroDivisionError, s))"
proof -
  have nonempty: "nd_size \<lparr>shape = [1, 2], data = [7, 9 :: 8 word]\<rparr> \<noteq> 0"
    by (simp add: nd_size_def)
  have dims: "length (shape \<lparr>shape = [1, 2], data = [7, 9 :: 8 word]\<rparr>) = 2
      \<or> length (shape \<lparr>shape = [1, 2], data = [7, 9 :: 8 word]\<rparr>) = 3"
    by simp
  from updateImage_no_zero_division [OF nonempty dims, of "\<lambda>src w h. replicate (w * h) 0"]
    nonempty
  show ?thesis by blast
qed

text \<open>
  C10. The constructor and \<^verbatim>\<open>clearBuffers\<close> store the null image, a returning
  \<^verbatim>\<open>updateImage\<close> on a non-empty array stores an image that is not null, and in
  every reachable state the attribute is not \<^verbatim>\<open>None\<close>, so \<^verbatim>\<open>paintEvent\<close> passes its
  guard and draws the stored image.
\<close>

theorem showed_image_never_None:
  "showed_image (fst init) = Some QImage_null
   \<and> showed_image (fst (clearBuffers v)) = Some QImage_null
   \<and> (\<forall>img v' es. nd_size img \<noteq> 0 \<and> updateImage interp v img = Inr (v', es) \<longrightarrow>
         (\<exists>q. showed_image v' = Some q \<and> \<not> isNull q))
   \<and> (reachable interp w \<longrightarrow>
         showed_image w \<noteq> None
         \<and> (\<exists>q. showed_image w = Some q
                \<and> paintEvent w surface =
                    surface @ [DrawPixmap 0 0 (img_width q) (img_height q) q]))"
proof -
  have "\<exists>q. showed_image v' = Some q \<and> \<not> isNull q"
    if "nd_size img \<noteq> 0" and "updateImage interp v img = Inr (v', es)" for img v' es
    using updateImage_stores_nonnull [OF that(2) that(1)] .
  moreover have "showed_image w \<noteq> None
      \<and> (\<exists>q. showed_image w = Some q
            \<and> paintEvent w surface = surface @ [DrawPixmap 0 0 (img_width q) (img_height q) q])"
    if "reachable interp w"
    using reachable_present [OF that] by (auto simp: paintEvent_def)
  ultimately show ?thesis
    using init_attrs(2) clearBuffers_attrs(4) [of v] by blast
qed

text \<open>The widget after the constructor, one image and \<^verbatim>\<open>clearBuffers\<close>.\<close>

theorem showed_image_never_None_witness:
  "reachable (\<lambda>src w h. replicate (w * h) 0)
     (fst (clearBuffers ((fst init)\<lparr>fixed_size := Some (1, 2),
        showed_image := Some \<lparr>bits = [0, 0], img_width = 1, img_height = 2,
          bytesPerLine = 4, format = Format_Indexed8, colorTable = init_colortable\<rparr>\<rparr>)))
   \<and> paintEvent
       (fst (clearBuffers ((fst init)\<lparr>fixed_size := Some (1, 2),
          showed_image := Some \<lparr>bits = [0, 0], img_width = 1, img_height = 2,
            bytesPerLine = 4, format = Format_Indexed8, colorTable = init_colortable\<rparr>\<rparr>))) []
       = [DrawPixmap 0 0 0 0 QImage_null]"
proof -
  let ?w = "fst (clearBuffers ((fst init)\<lparr>fixed_size := Some (1, 2),
        showed_image := Some \<lparr>bits = [0, 0], img_width = 1, img_height = 2,
          bytesPerLine = 4, format = Format_Indexed8, colorTable = init_colortable\<rparr>\<rparr>))"
  have r: "reachable (\<lambda>src w h. replicate (w * h) 0) ?w"
    by (rule reach_clear [OF reachable_after_one_update])
  from showed_image_never_None [of "fst init" "\<lambda>src w h. replicate (w * h) 0" ?w "[]"] r
  have "\<exists>q. showed_image ?w = Some q
      \<and> paintEvent ?w [] = [] @ [DrawPixmap 0 0 (img_width q) (img_height q) q]"
    by blast
  then obtain q where q: "showed_image ?w = Some q"
    and p: "paintEvent ?w [] = [DrawPixmap 0 0 (img_width q) (img_height q) q]"
    by auto
  have "showed_image ?w = Some QImage_null"
    by (rule clearBuffers_attrs(4))
  with q have "q = QImage_null"
    by simp
  with p have "paintEvent ?w [] = [DrawPixmap 0 0 0 0 QImage_null]"
    by (simp add: QImage_null_def)
  with r show ?thesis
    by blast
qed

end
